theory Spec2Isabelle
  imports Main "HOL-Library.Word" "HOL-Library.Code_Target_Numeral"
begin

unbundle bit_operations_syntax

section \<open>Dynamic values of the validate package (util.go)\<close>

text \<open>
  The package works on Go values through \<^verbatim>\<open>interface{}\<close> and \<^verbatim>\<open>reflect.Value\<close>.
  A value is modelled as a tagged union: one constructor per group of reflect kinds,
  carrying what the accessors of that kind read (\<^verbatim>\<open>v.Int()\<close> is always an int64,
  \<^verbatim>\<open>v.Uint()\<close> a uint64, \<^verbatim>\<open>v.Float()\<close> a float64).  Values of defined (named) types
  other than \<^verbatim>\<open>NilObject\<close> are outside the model: a string is of type \<^verbatim>\<open>string\<close>, a
  float of type \<^verbatim>\<open>float32\<close> or \<^verbatim>\<open>float64\<close>.
\<close>

subsection \<open>reflect.Kind\<close>

datatype rkind =
    KInvalid | KBool
  | KInt | KInt8 | KInt16 | KInt32 | KInt64
  | KUint | KUint8 | KUint16 | KUint32 | KUint64 | KUintptr
  | KFloat32 | KFloat64 | KComplex64 | KComplex128
  | KArray | KChan | KFunc | KInterface | KMap | KPtr | KSlice | KString
  | KStruct | KUnsafePointer

datatype intWidth = I0 | I8 | I16 | I32 | I64
datatype uintWidth = U0 | U8 | U16 | U32 | U64 | Uptr
datatype floatWidth = F32 | F64
datatype complexWidth = C64 | C128

type_synonym int64 = "64 word"
type_synonym uint64 = "64 word"

text \<open>A float64 is its IEEE 754 bit pattern (what \<^verbatim>\<open>math.Float64bits\<close> returns).\<close>

type_synonym float64 = "64 word"

text \<open>
  A result type, as far as the package looks at it: \<^verbatim>\<open>errorType\<close> is the predeclared
  interface \<^verbatim>\<open>error\<close>; every other type is known by its kind.
\<close>

datatype rtype = errorType | otherType rkind

fun typeKind :: "rtype \<Rightarrow> rkind" where
  "typeKind errorType = KInterface"
| "typeKind (otherType k) = k"

text \<open>The signature of a function type: \<^verbatim>\<open>NumIn()\<close> and the list \<^verbatim>\<open>Out(0), Out(1), ...\<close>.\<close>

record funcType =
  NumIn :: nat
  Outs :: "rtype list"

text \<open>
  \<^item> \<open>VInvalid\<close>: the zero \<^verbatim>\<open>reflect.Value\<close>, which is also \<^verbatim>\<open>reflect.ValueOf(nil)\<close>;
  \<^item> \<open>VSlice None\<close>, \<open>VMap None\<close>, \<open>VChan None\<close>, \<open>VPtr None\<close>, \<open>VInterface None\<close>:
    the nil slice, map, channel, pointer and interface; a channel carries its
    buffered elements, a map its entries in some order;
  \<^item> \<open>VFunc ft isNil\<close>: a function value of signature \<open>ft\<close>;
  \<^item> \<open>VStruct name fields\<close>: a struct of the named type;
  \<^item> \<open>VInterface\<close>: a \<^verbatim>\<open>reflect.Value\<close> of kind Interface (an element of a
    \<^verbatim>\<open>[]interface{}\<close>, say); an \<^verbatim>\<open>interface{}\<close> argument never has this shape.
\<close>

datatype gval =
    VInvalid
  | VBool bool
  | VInt intWidth int64
  | VUint uintWidth uint64
  | VFloat floatWidth float64
  | VComplex complexWidth float64 float64
  | VString string
  | VArray "gval list"
  | VSlice "gval list option"
  | VMap "(gval \<times> gval) list option"
  | VChan "gval list option"
  | VFunc funcType bool
  | VInterface "gval option"
  | VPtr "gval option"
  | VStruct string "gval list"
  | VUnsafePointer uint64

fun intKindOf :: "intWidth \<Rightarrow> rkind" where
  "intKindOf I0 = KInt"
| "intKindOf I8 = KInt8"
| "intKindOf I16 = KInt16"
| "intKindOf I32 = KInt32"
| "intKindOf I64 = KInt64"

fun uintKindOf :: "uintWidth \<Rightarrow> rkind" where
  "uintKindOf U0 = KUint"
| "uintKindOf U8 = KUint8"
| "uintKindOf U16 = KUint16"
| "uintKindOf U32 = KUint32"
| "uintKindOf U64 = KUint64"
| "uintKindOf Uptr = KUintptr"

fun floatKindOf :: "floatWidth \<Rightarrow> rkind" where
  "floatKindOf F32 = KFloat32"
| "floatKindOf F64 = KFloat64"

fun complexKindOf :: "complexWidth \<Rightarrow> rkind" where
  "complexKindOf C64 = KComplex64"
| "complexKindOf C128 = KComplex128"

text \<open>\<^verbatim>\<open>v.Kind()\<close>.\<close>

fun Kind :: "gval \<Rightarrow> rkind" where
  "Kind VInvalid = KInvalid"
| "Kind (VBool _) = KBool"
| "Kind (VInt w _) = intKindOf w"
| "Kind (VUint w _) = uintKindOf w"
| "Kind (VFloat w _) = floatKindOf w"
| "Kind (VComplex w _ _) = complexKindOf w"
| "Kind (VString _) = KString"
| "Kind (VArray _) = KArray"
| "Kind (VSlice _) = KSlice"
| "Kind (VMap _) = KMap"
| "Kind (VChan _) = KChan"
| "Kind (VFunc _ _) = KFunc"
| "Kind (VInterface _) = KInterface"
| "Kind (VPtr _) = KPtr"
| "Kind (VStruct _ _) = KStruct"
| "Kind (VUnsafePointer _) = KUnsafePointer"

subsection \<open>Outcomes\<close>

text \<open>
  A Go call returns, returns an error value, or panics.  \<open>Panicf fmt args\<close> is the
  package's \<^verbatim>\<open>panicf(fmt, args...)\<close>, kept as the format and its arguments;
  \<open>ReflectPanic msg\<close> is a panic raised by package reflect itself.
\<close>

datatype error = ErrConvertFail | errBadComparisonType

datatype panic = Panicf string "string list" | ReflectPanic string

datatype 'a outcome = Returns 'a | Fails error | Panics panic

definition andThen :: "'a outcome \<Rightarrow> ('a \<Rightarrow> 'b outcome) \<Rightarrow> 'b outcome" where
  "andThen m f = (case m of Returns x \<Rightarrow> f x | Fails e \<Rightarrow> Fails e | Panics p \<Rightarrow> Panics p)"

subsection \<open>IEEE comparison of float64 values\<close>

text \<open>
  Go's \<^verbatim>\<open>==\<close>, \<^verbatim>\<open><\<close>, \<^verbatim>\<open><=\<close> on float64: a NaN compares false with everything, the
  two zeros are equal, and otherwise the order is that of sign and magnitude.
\<close>

definition f64_mag :: "float64 \<Rightarrow> nat" where
  "f64_mag b = unat (b AND 0x7FFFFFFFFFFFFFFF)"

definition f64_isNaN :: "float64 \<Rightarrow> bool" where
  "f64_isNaN b = (0x7FF0000000000000 < f64_mag b)"

definition f64_key :: "float64 \<Rightarrow> int" where
  "f64_key b = (if bit b 63 then - int (f64_mag b) else int (f64_mag b))"

definition f64_eq :: "float64 \<Rightarrow> float64 \<Rightarrow> bool" where
  "f64_eq a b = (\<not> f64_isNaN a \<and> \<not> f64_isNaN b \<and> f64_key a = f64_key b)"

definition f64_lt :: "float64 \<Rightarrow> float64 \<Rightarrow> bool" where
  "f64_lt a b = (\<not> f64_isNaN a \<and> \<not> f64_isNaN b \<and> f64_key a < f64_key b)"

definition f64_le :: "float64 \<Rightarrow> float64 \<Rightarrow> bool" where
  "f64_le a b = (\<not> f64_isNaN a \<and> \<not> f64_isNaN b \<and> f64_key a \<le> f64_key b)"

subsection \<open>Accessors of reflect.Value used behind a base-kind test\<close>

text \<open>Each panics on a value of another kind, as in package reflect.\<close>

fun vBool :: "gval \<Rightarrow> bool outcome" where
  "vBool (VBool b) = Returns b"
| "vBool _ = Panics (ReflectPanic ''reflect: call of reflect.Value.Bool on non-bool Value'')"

fun vInt :: "gval \<Rightarrow> int64 outcome" where
  "vInt (VInt _ i) = Returns i"
| "vInt _ = Panics (ReflectPanic ''reflect: call of reflect.Value.Int on non-int Value'')"

fun vUint :: "gval \<Rightarrow> uint64 outcome" where
  "vUint (VUint _ u) = Returns u"
| "vUint _ = Panics (ReflectPanic ''reflect: call of reflect.Value.Uint on non-uint Value'')"

fun vFloat :: "gval \<Rightarrow> float64 outcome" where
  "vFloat (VFloat _ f) = Returns f"
| "vFloat _ = Panics (ReflectPanic ''reflect: call of reflect.Value.Float on non-float Value'')"

fun vComplex :: "gval \<Rightarrow> (float64 \<times> float64) outcome" where
  "vComplex (VComplex _ re im) = Returns (re, im)"
| "vComplex _ = Panics (ReflectPanic ''reflect: call of reflect.Value.Complex on non-complex Value'')"

section \<open>Comparison: eq\<close>

text \<open>The package's base kinds (\<^verbatim>\<open>type kind int\<close>).\<close>

datatype kind = invalidKind | boolKind | complexKind | intKind | floatKind | stringKind | uintKind

fun basicKindV2 :: "rkind \<Rightarrow> error + kind" where
  "basicKindV2 KBool = Inr boolKind"
| "basicKindV2 KInt = Inr intKind"
| "basicKindV2 KInt8 = Inr intKind"
| "basicKindV2 KInt16 = Inr intKind"
| "basicKindV2 KInt32 = Inr intKind"
| "basicKindV2 KInt64 = Inr intKind"
| "basicKindV2 KUint = Inr uintKind"
| "basicKindV2 KUint8 = Inr uintKind"
| "basicKindV2 KUint16 = Inr uintKind"
| "basicKindV2 KUint32 = Inr uintKind"
| "basicKindV2 KUint64 = Inr uintKind"
| "basicKindV2 KUintptr = Inr uintKind"
| "basicKindV2 KFloat32 = Inr floatKind"
| "basicKindV2 KFloat64 = Inr floatKind"
| "basicKindV2 KComplex64 = Inr complexKind"
| "basicKindV2 KComplex128 = Inr complexKind"
| "basicKindV2 KString = Inr stringKind"
| "basicKindV2 _ = Inl errBadComparisonType"

definition emptyValue :: gval where
  "emptyValue = VInvalid"

fun indirectInterface :: "gval \<Rightarrow> gval" where
  "indirectInterface (VInterface None) = emptyValue"
| "indirectInterface (VInterface (Some x)) = x"
| "indirectInterface v = v"

text \<open>
  \<^verbatim>\<open>v.String()\<close> never panics: on a value that is no string it yields a description
  \<^verbatim>\<open>"<T Value>"\<close> of the type, which the model takes from \<open>typeName\<close>.
\<close>

fun vString :: "(gval \<Rightarrow> string) \<Rightarrow> gval \<Rightarrow> string" where
  "vString typeName (VString s) = s"
| "vString typeName VInvalid = ''<invalid Value>''"
| "vString typeName v = ''<'' @ typeName v @ '' Value>''"

text \<open>
  The second switch of \<^verbatim>\<open>eq\<close>, reached when both base kinds are \<open>k1\<close>.  In the
  string case both values are strings, so \<^verbatim>\<open>v.String()\<close> is the string itself.
\<close>

definition eqSameKind :: "kind \<Rightarrow> gval \<Rightarrow> gval \<Rightarrow> bool outcome" where
  "eqSameKind k1 v1 v2 =
     (case k1 of
        boolKind \<Rightarrow> andThen (vBool v1) (\<lambda>a. andThen (vBool v2) (\<lambda>b. Returns (a = b)))
      | complexKind \<Rightarrow>
          andThen (vComplex v1) (\<lambda>(ar, ai). andThen (vComplex v2) (\<lambda>(br, bi).
            Returns (f64_eq ar br \<and> f64_eq ai bi)))
      | floatKind \<Rightarrow> andThen (vFloat v1) (\<lambda>a. andThen (vFloat v2) (\<lambda>b. Returns (f64_eq a b)))
      | intKind \<Rightarrow> andThen (vInt v1) (\<lambda>a. andThen (vInt v2) (\<lambda>b. Returns (a = b)))
      | stringKind \<Rightarrow> Returns (vString (\<lambda>_. []) v1 = vString (\<lambda>_. []) v2)
      | uintKind \<Rightarrow> andThen (vUint v1) (\<lambda>a. andThen (vUint v2) (\<lambda>b. Returns (a = b)))
      | invalidKind \<Rightarrow> Returns False)"

text \<open>
  The first switch, reached when the base kinds differ: \<^verbatim>\<open>uint64(v1.Int())\<close> keeps
  the 64 bits, and \<^verbatim>\<open>&&\<close> reads its right operand only when the left one holds.
\<close>

definition eqMixedKind :: "kind \<Rightarrow> kind \<Rightarrow> gval \<Rightarrow> gval \<Rightarrow> bool outcome" where
  "eqMixedKind k1 k2 v1 v2 =
     (if k1 = intKind \<and> k2 = uintKind then
        andThen (vInt v1) (\<lambda>a.
          if 0 \<le> sint a then andThen (vUint v2) (\<lambda>b. Returns (a = b)) else Returns False)
      else if k1 = uintKind \<and> k2 = intKind then
        andThen (vInt v2) (\<lambda>b.
          if 0 \<le> sint b then andThen (vUint v1) (\<lambda>a. Returns (a = b)) else Returns False)
      else Returns False)"

definition eq :: "gval \<Rightarrow> gval \<Rightarrow> bool outcome" where
  "eq arg1 arg2 =
     (let v1 = indirectInterface arg1 in
      case basicKindV2 (Kind v1) of
        Inl err \<Rightarrow> Fails err
      | Inr k1 \<Rightarrow>
         (let v2 = indirectInterface arg2 in
          case basicKindV2 (Kind v2) of
            Inl err \<Rightarrow> Fails err
          | Inr k2 \<Rightarrow>
              if k1 \<noteq> k2 then eqMixedKind k1 k2 v1 v2 else eqSameKind k1 v1 v2))"

section \<open>Strings: bytes and runes\<close>

text \<open>
  A Go string is a sequence of bytes, here a \<open>string\<close> whose characters are the
  bytes: \<^verbatim>\<open>len(s)\<close> is \<open>length s\<close>.  \<^verbatim>\<open>[]rune(s)\<close> and \<^verbatim>\<open>for i, r := range s\<close>
  decode UTF-8 as \<^verbatim>\<open>utf8.DecodeRuneInString\<close> does: a byte that starts no valid
  encoding is the rune U+FFFD of width 1.
\<close>

definition RuneError :: nat where
  "RuneError = 0xFFFD"

text \<open>The number of bytes announced by a leading byte, 0 for a byte that leads nothing.\<close>

definition leadSize :: "nat \<Rightarrow> nat" where
  "leadSize s0 =
     (if s0 < 0x80 then 1
      else if s0 < 0xC2 then 0
      else if s0 < 0xE0 then 2
      else if s0 < 0xF0 then 3
      else if s0 < 0xF5 then 4
      else 0)"

text \<open>The range accepted for the second byte (\<^verbatim>\<open>acceptRanges\<close>).\<close>

definition acceptLo :: "nat \<Rightarrow> nat" where
  "acceptLo s0 = (if s0 = 0xE0 then 0xA0 else if s0 = 0xF0 then 0x90 else 0x80)"

definition acceptHi :: "nat \<Rightarrow> nat" where
  "acceptHi s0 = (if s0 = 0xED then 0x9F else if s0 = 0xF4 then 0x8F else 0xBF)"

definition isCont :: "nat \<Rightarrow> bool" where
  "isCont b = (0x80 \<le> b \<and> b \<le> 0xBF)"

fun decodeRune :: "nat list \<Rightarrow> nat \<times> nat" where
  "decodeRune [] = (RuneError, 0)"
| "decodeRune (s0 # rest) =
     (if s0 < 0x80 then (s0, 1)
      else if leadSize s0 = 0 then (RuneError, 1)
      else if length (s0 # rest) < leadSize s0 then (RuneError, 1)
      else
        (let s1 = rest ! 0 in
         if s1 < acceptLo s0 \<or> acceptHi s0 < s1 then (RuneError, 1)
         else if leadSize s0 \<le> 2 then ((s0 mod 32) * 64 + s1 mod 64, 2)
         else
           (let s2 = rest ! 1 in
            if \<not> isCont s2 then (RuneError, 1)
            else if leadSize s0 \<le> 3 then ((s0 mod 16) * 4096 + (s1 mod 64) * 64 + s2 mod 64, 3)
            else
              (let s3 = rest ! 2 in
               if \<not> isCont s3 then (RuneError, 1)
               else ((s0 mod 8) * 262144 + (s1 mod 64) * 4096 + (s2 mod 64) * 64 + s3 mod 64, 4)))))"

text \<open>
  \<^verbatim>\<open>for i, r := range s\<close>: the pairs of a byte index and the rune decoded there.  A
  rune is at least one byte wide, so the first byte is always consumed.
\<close>

fun rangeBytes :: "nat \<Rightarrow> nat list \<Rightarrow> (nat \<times> nat) list" where
  "rangeBytes i [] = []"
| "rangeBytes i (b # bs) =
     (let (r, w) = decodeRune (b # bs) in (i, r) # rangeBytes (i + w) (drop (w - 1) bs))"

definition rangeString :: "string \<Rightarrow> (nat \<times> nat) list" where
  "rangeString s = rangeBytes 0 (map of_char s)"

text \<open>\<^verbatim>\<open>[]rune(s)\<close> and its length.\<close>

definition runes :: "string \<Rightarrow> nat list" where
  "runes s = map snd (rangeString s)"

definition runeCount :: "string \<Rightarrow> nat" where
  "runeCount s = length (runes s)"

text \<open>\<^verbatim>\<open>strings.Contains(s, substr)\<close>.\<close>

fun Contains :: "string \<Rightarrow> string \<Rightarrow> bool" where
  "Contains [] substr = (substr = [])"
| "Contains (c # cs) substr = (take (length substr) (c # cs) = substr \<or> Contains cs substr)"

subsection \<open>strconv.FormatInt(i, 10)\<close>

definition digitChar :: "nat \<Rightarrow> char" where
  "digitChar d = ''0123456789'' ! d"

fun formatNat :: "nat \<Rightarrow> string" where
  "formatNat n = (if n < 10 then [digitChar n] else formatNat (n div 10) @ [digitChar (n mod 10)])"

declare formatNat.simps [simp del]

definition FormatInt :: "int \<Rightarrow> string" where
  "FormatInt i = (if i < 0 then CHR ''-'' # formatNat (nat (- i)) else formatNat (nat i))"

section \<open>Emptiness and length\<close>

text \<open>
  \<^verbatim>\<open>reflect.DeepEqual(v.Interface(), reflect.Zero(v.Type()).Interface())\<close>: the deep
  comparison of a value with the zero value of its own type.  DeepEqual compares
  numbers, strings and booleans with \<^verbatim>\<open>==\<close>, arrays and structs element by element,
  and tells a nil slice, map, pointer, interface, function or channel from one that is
  not nil; the zero value of those types is nil.
\<close>

fun deepEqualZero :: "gval \<Rightarrow> bool" where
  "deepEqualZero VInvalid = True"
| "deepEqualZero (VBool b) = (\<not> b)"
| "deepEqualZero (VInt _ i) = (i = 0)"
| "deepEqualZero (VUint _ u) = (u = 0)"
| "deepEqualZero (VFloat _ f) = f64_eq f 0"
| "deepEqualZero (VComplex _ re im) = (f64_eq re 0 \<and> f64_eq im 0)"
| "deepEqualZero (VString s) = (s = [])"
| "deepEqualZero (VArray xs) = (\<forall>x \<in> set xs. deepEqualZero x)"
| "deepEqualZero (VSlice s) = (s = None)"
| "deepEqualZero (VMap m) = (m = None)"
| "deepEqualZero (VChan c) = (c = None)"
| "deepEqualZero (VFunc _ isNil) = isNil"
| "deepEqualZero (VInterface x) = (x = None)"
| "deepEqualZero (VPtr x) = (x = None)"
| "deepEqualZero (VStruct _ fs) = (\<forall>x \<in> set fs. deepEqualZero x)"
| "deepEqualZero (VUnsafePointer a) = (a = 0)"

text \<open>\<^verbatim>\<open>v.Len()\<close> of a slice, map or channel: 0 when it is nil.\<close>

fun lenOpt :: "'a list option \<Rightarrow> nat" where
  "lenOpt None = 0"
| "lenOpt (Some xs) = length xs"

text \<open>
  \<^verbatim>\<open>switch v.Kind()\<close>: the kind selects the constructor, whose fields are what
  \<^verbatim>\<open>v.Len()\<close>, \<^verbatim>\<open>v.IsNil()\<close>, \<^verbatim>\<open>v.Bool()\<close>, \<^verbatim>\<open>v.Int()\<close>, \<^verbatim>\<open>v.Uint()\<close> and
  \<^verbatim>\<open>v.Float()\<close> read there.
\<close>

fun ValueIsEmpty :: "gval \<Rightarrow> bool" where
  "ValueIsEmpty VInvalid = True"
| "ValueIsEmpty (VString s) = (length s = 0)"
| "ValueIsEmpty (VArray xs) = (length xs = 0)"
| "ValueIsEmpty (VMap m) = (lenOpt m = 0 \<or> m = None)"
| "ValueIsEmpty (VSlice s) = (lenOpt s = 0 \<or> s = None)"
| "ValueIsEmpty (VBool b) = (\<not> b)"
| "ValueIsEmpty (VInt _ i) = (i = 0)"
| "ValueIsEmpty (VUint _ u) = (u = 0)"
| "ValueIsEmpty (VFloat _ f) = f64_eq f 0"
| "ValueIsEmpty (VInterface x) = (x = None)"
| "ValueIsEmpty (VPtr x) = (x = None)"
| "ValueIsEmpty v = deepEqualZero v"

text \<open>\<^verbatim>\<open>reflect.Indirect(v)\<close>: one pointer is followed; a nil pointer gives the zero Value.\<close>

fun Indirect :: "gval \<Rightarrow> gval" where
  "Indirect (VPtr None) = VInvalid"
| "Indirect (VPtr (Some x)) = x"
| "Indirect v = v"

text \<open>
  The switch of \<^verbatim>\<open>ValueLen\<close>.  \<open>fmtSprint\<close> stands for \<^verbatim>\<open>fmt.Sprint\<close> of a float,
  which the package takes from the standard library.
\<close>

fun lenByKind :: "(gval \<Rightarrow> string) \<Rightarrow> gval \<Rightarrow> int" where
  "lenByKind fmtSprint (VString s) = int (length (runes s))"
| "lenByKind fmtSprint (VMap m) = int (lenOpt m)"
| "lenByKind fmtSprint (VArray xs) = int (length xs)"
| "lenByKind fmtSprint (VChan c) = int (lenOpt c)"
| "lenByKind fmtSprint (VSlice s) = int (lenOpt s)"
| "lenByKind fmtSprint (VUint _ u) = int (length (FormatInt (sint u)))"
| "lenByKind fmtSprint (VInt _ i) = int (length (FormatInt (sint i)))"
| "lenByKind fmtSprint (VFloat w f) = int (length (fmtSprint (VFloat w f)))"
| "lenByKind fmtSprint v = - 1"

definition ValueLen :: "(gval \<Rightarrow> string) \<Rightarrow> gval \<Rightarrow> int" where
  "ValueLen fmtSprint v = lenByKind fmtSprint (Indirect v)"

definition CalcLength :: "(gval \<Rightarrow> string) \<Rightarrow> gval \<Rightarrow> int" where
  "CalcLength fmtSprint val =
     (if val = VInvalid then - 1
      else case val of
        VString str \<Rightarrow> int (length (runes str))
      | _ \<Rightarrow> ValueLen fmtSprint val)"

section \<open>Ordered comparison\<close>

definition compareInt64 :: "int64 \<Rightarrow> int64 \<Rightarrow> string \<Rightarrow> bool" where
  "compareInt64 srcI64 dstI64 op =
     (if op = ''lt'' then sint srcI64 < sint dstI64
      else if op = ''lte'' then sint srcI64 \<le> sint dstI64
      else if op = ''gt'' then sint dstI64 < sint srcI64
      else if op = ''gte'' then sint dstI64 \<le> sint srcI64
      else False)"

definition compareFloat64 :: "float64 \<Rightarrow> float64 \<Rightarrow> string \<Rightarrow> bool" where
  "compareFloat64 srcI64 dstI64 op =
     (if op = ''lt'' then f64_lt srcI64 dstI64
      else if op = ''lte'' then f64_le srcI64 dstI64
      else if op = ''gt'' then f64_lt dstI64 srcI64
      else if op = ''gte'' then f64_le dstI64 srcI64
      else False)"

text \<open>
  \<open>ToInt64\<close> stands for \<^verbatim>\<open>mathutil.ToInt64\<close> of the library gookit/goutil, which is
  not part of the package.  \<^verbatim>\<open>int64(len(str))\<close> is the number of bytes.
\<close>

definition valueCompare :: "(gval \<Rightarrow> error + int64) \<Rightarrow> gval \<Rightarrow> gval \<Rightarrow> string \<Rightarrow> bool" where
  "valueCompare ToInt64 srcVal dstVal op =
     (case srcVal of
        VString str \<Rightarrow>
          (case dstVal of
             VString dst \<Rightarrow> compareInt64 (of_nat (length str)) (of_nat (length dst)) op
           | _ \<Rightarrow> False)
      | _ \<Rightarrow>
          (case ToInt64 srcVal of
             Inl err \<Rightarrow> False
           | Inr srcInt \<Rightarrow>
               (case ToInt64 dstVal of
                  Inl err \<Rightarrow> False
                | Inr dstInt \<Rightarrow> compareInt64 srcInt dstInt op)))"

text \<open>
  \<open>ToFloat\<close> and \<open>Int64\<close> stand for \<^verbatim>\<open>mathutil.ToFloat\<close> and \<^verbatim>\<open>mathutil.Int64\<close>.  The
  value of a float32 is carried as the float64 it widens to, so \<^verbatim>\<open>float64(srcFlt)\<close>
  is the value itself.
\<close>

definition compareIntFloat ::
  "(gval \<Rightarrow> error + float64) \<Rightarrow> (gval \<Rightarrow> error + int64) \<Rightarrow> gval \<Rightarrow> gval \<Rightarrow> string \<Rightarrow> bool" where
  "compareIntFloat ToFloat Int64 srcVal dstVal op =
     (if srcVal = VInvalid \<or> dstVal = VInvalid then False
      else case srcVal of
        VFloat w srcFlt \<Rightarrow>
          (case ToFloat dstVal of
             Inl err \<Rightarrow> False
           | Inr dstFlt \<Rightarrow> compareFloat64 srcFlt dstFlt op)
      | _ \<Rightarrow>
          (case Int64 srcVal of
             Inl err \<Rightarrow> False
           | Inr srcInt \<Rightarrow>
               (case Int64 dstVal of
                  Inl err \<Rightarrow> False
                | Inr dstInt \<Rightarrow> compareInt64 srcInt dstInt op)))"

section \<open>Registration: names and signatures\<close>

text \<open>
  \<open>IsLetter\<close> and \<open>IsDigit\<close> stand for \<^verbatim>\<open>unicode.IsLetter\<close> and \<^verbatim>\<open>unicode.IsDigit\<close>.
  The loop of \<^verbatim>\<open>goodName\<close> over the pairs \<open>(i, r)\<close> of \<^verbatim>\<open>range name\<close>:
\<close>

fun goodNameLoop :: "(nat \<Rightarrow> bool) \<Rightarrow> (nat \<Rightarrow> bool) \<Rightarrow> (nat \<times> nat) list \<Rightarrow> bool" where
  "goodNameLoop IsLetter IsDigit [] = True"
| "goodNameLoop IsLetter IsDigit ((i, r) # rest) =
     (if r = of_char CHR ''_'' then goodNameLoop IsLetter IsDigit rest
      else if i = 0 \<and> \<not> IsLetter r then False
      else if \<not> IsLetter r \<and> \<not> IsDigit r then False
      else goodNameLoop IsLetter IsDigit rest)"

definition goodName :: "(nat \<Rightarrow> bool) \<Rightarrow> (nat \<Rightarrow> bool) \<Rightarrow> string \<Rightarrow> bool" where
  "goodName IsLetter IsDigit name =
     (if name = [] then False else goodNameLoop IsLetter IsDigit (rangeString name))"

definition goodFunc :: "funcType \<Rightarrow> bool" where
  "goodFunc typ =
     (if length (Outs typ) = 1 then True
      else if length (Outs typ) = 2 \<and> Outs typ ! 1 = errorType then True
      else False)"

text \<open>
  \<^verbatim>\<open>fn == nil || fv.Kind() != reflect.Func\<close> holds exactly when \<open>fn\<close> is no function
  value; otherwise \<^verbatim>\<open>fv.Type()\<close> is its signature.
\<close>

definition checkValidatorFunc ::
  "(nat \<Rightarrow> bool) \<Rightarrow> (nat \<Rightarrow> bool) \<Rightarrow> string \<Rightarrow> gval \<Rightarrow> gval outcome" where
  "checkValidatorFunc IsLetter IsDigit name fn =
     (if \<not> goodName IsLetter IsDigit name then
        Panics (Panicf ''validate name %s is not a valid identifier'' [name])
      else case fn of
        VFunc ft isNil \<Rightarrow>
          if NumIn ft = 0 then
            Panics (Panicf ''validator '%s' func at least one parameter position'' [name])
          else if length (Outs ft) \<noteq> 1 then
            Panics (Panicf ''validator '%s' func must be return a bool value'' [name])
          else if typeKind (Outs ft ! 0) \<noteq> KBool then
            Panics (Panicf ''validator '%s' func must be return a bool value'' [name])
          else Returns fn
      | _ \<Rightarrow> Panics (Panicf ''validator '%s'. 2th parameter is invalid, it must be an func'' [name]))"

definition checkFilterFunc ::
  "(nat \<Rightarrow> bool) \<Rightarrow> (nat \<Rightarrow> bool) \<Rightarrow> string \<Rightarrow> gval \<Rightarrow> gval outcome" where
  "checkFilterFunc IsLetter IsDigit name fn =
     (if \<not> goodName IsLetter IsDigit name then
        Panics (Panicf ''filter name %s is not a valid identifier'' [name])
      else case fn of
        VFunc ft isNil \<Rightarrow>
          if NumIn ft = 0 then
            Panics (Panicf ''filter '%s' func at least one parameter position'' [name])
          else if \<not> goodFunc ft then
            Panics (Panicf ''can't install method/function %q with %d results''
                      [name, FormatInt (int (length (Outs ft)))])
          else Returns fn
      | _ \<Rightarrow> Panics (Panicf ''filter '%s'. 2th parameter is invalid, it must be an func'' [name]))"

section \<open>Invocation: CallByValue\<close>

definition nilObj :: gval where
  "nilObj = VStruct ''NilObject'' []"

definition nilRVal :: gval where
  "nilRVal = nilObj"

text \<open>
  The loop that fills \<^verbatim>\<open>in\<close>: \<^verbatim>\<open>reflect.ValueOf(v)\<close> is the value itself, the zero
  Value for a nil argument.
\<close>

definition callArgs :: "gval list \<Rightarrow> gval list" where
  "callArgs args = map (\<lambda>v. if Kind v = KInvalid then nilRVal else v) args"

text \<open>
  \<^verbatim>\<open>fv.Call(in)\<close>: package reflect panics on an argument that is the zero Value (the
  NOTICE in the source); \<open>invoke\<close> stands for everything else the call does, the
  user's function included.
\<close>

definition reflectCall ::
  "(gval \<Rightarrow> gval list \<Rightarrow> gval list outcome) \<Rightarrow> gval \<Rightarrow> gval list \<Rightarrow> gval list outcome" where
  "reflectCall invoke fv ins =
     (if \<exists>x \<in> set ins. Kind x = KInvalid
      then Panics (ReflectPanic ''reflect: Call using zero Value argument'')
      else invoke fv ins)"

definition CallByValue ::
  "(gval \<Rightarrow> gval list \<Rightarrow> gval list outcome) \<Rightarrow> gval \<Rightarrow> gval list \<Rightarrow> gval list outcome" where
  "CallByValue invoke fv args =
     (if Kind fv \<noteq> KFunc then Panics (Panicf ''parameter must be an func type'' [])
      else reflectCall invoke fv (callArgs args))"

section \<open>Membership: includeElement\<close>

text \<open>
  Accessors that \<^verbatim>\<open>includeElement\<close> calls without a test of the kind.  \<^verbatim>\<open>Len\<close> is
  defined on arrays, channels, maps, slices and strings; a pointer to an array, which
  later releases of package reflect also accept, has no length here.
\<close>

fun vTypeKind :: "gval \<Rightarrow> rkind outcome" where
  "vTypeKind VInvalid = Panics (ReflectPanic ''reflect: call of reflect.Value.Type on zero Value'')"
| "vTypeKind v = Returns (Kind v)"

fun vLen :: "gval \<Rightarrow> nat outcome" where
  "vLen (VArray xs) = Returns (length xs)"
| "vLen (VChan c) = Returns (lenOpt c)"
| "vLen (VMap m) = Returns (lenOpt m)"
| "vLen (VSlice s) = Returns (lenOpt s)"
| "vLen (VString s) = Returns (length s)"
| "vLen _ = Panics (ReflectPanic ''reflect: call of reflect.Value.Len on a Value without length'')"

fun vIndex :: "gval \<Rightarrow> nat \<Rightarrow> gval outcome" where
  "vIndex (VArray xs) i =
     (if i < length xs then Returns (xs ! i)
      else Panics (ReflectPanic ''reflect: array index out of range''))"
| "vIndex (VSlice (Some xs)) i =
     (if i < length xs then Returns (xs ! i)
      else Panics (ReflectPanic ''reflect: slice index out of range''))"
| "vIndex (VSlice None) i = Panics (ReflectPanic ''reflect: slice index out of range'')"
| "vIndex (VString s) i =
     (if i < length s then Returns (VUint U8 (of_char (s ! i)))
      else Panics (ReflectPanic ''reflect: string index out of range''))"
| "vIndex _ i = Panics (ReflectPanic ''reflect: call of reflect.Value.Index on a Value without index'')"

fun vMapKeys :: "gval \<Rightarrow> gval list outcome" where
  "vMapKeys (VMap None) = Returns []"
| "vMapKeys (VMap (Some kvs)) = Returns (map fst kvs)"
| "vMapKeys _ = Panics (ReflectPanic ''reflect: call of reflect.Value.MapKeys on non-map Value'')"

text \<open>\<^verbatim>\<open>v.Interface()\<close>: the value as an \<^verbatim>\<open>interface{}\<close>, the dynamic value of an interface.\<close>

fun vInterface :: "gval \<Rightarrow> gval outcome" where
  "vInterface VInvalid = Panics (ReflectPanic ''reflect: call of reflect.Value.Interface on zero Value'')"
| "vInterface (VInterface None) = Returns VInvalid"
| "vInterface (VInterface (Some x)) = Returns x"
| "vInterface v = Returns v"

text \<open>
  \<open>IsEqual\<close> stands for the package's \<^verbatim>\<open>IsEqual\<close> (validators.go), which is not in
  util.go.  The two loops of \<^verbatim>\<open>includeElement\<close>:
\<close>

fun scanKeys :: "(gval \<Rightarrow> gval \<Rightarrow> bool outcome) \<Rightarrow> gval list \<Rightarrow> gval \<Rightarrow> (bool \<times> bool) outcome" where
  "scanKeys IsEqual [] element = Returns (True, False)"
| "scanKeys IsEqual (k # mapKeys) element =
     andThen (vInterface k) (\<lambda>kv. andThen (IsEqual kv element) (\<lambda>same.
       if same then Returns (True, True) else scanKeys IsEqual mapKeys element))"

fun scanIndex ::
  "(gval \<Rightarrow> gval \<Rightarrow> bool outcome) \<Rightarrow> gval \<Rightarrow> gval \<Rightarrow> nat list \<Rightarrow> (bool \<times> bool) outcome" where
  "scanIndex IsEqual listValue element [] = Returns (True, False)"
| "scanIndex IsEqual listValue element (i # rest) =
     andThen (vIndex listValue i) (\<lambda>x. andThen (vInterface x) (\<lambda>xv.
       andThen (IsEqual xv element) (\<lambda>same.
         if same then Returns (True, True) else scanIndex IsEqual listValue element rest)))"

text \<open>The deferred function: a panic of the body becomes \<^verbatim>\<open>ok = false, found = false\<close>.\<close>

fun recovered :: "(bool \<times> bool) outcome \<Rightarrow> (bool \<times> bool) outcome" where
  "recovered (Panics e) = Returns (False, False)"
| "recovered r = r"

text \<open>
  \<^verbatim>\<open>listValue.Type().Kind()\<close> and the string branch run before the \<^verbatim>\<open>defer\<close>
  statement; \<open>typeName\<close> is the type description that \<^verbatim>\<open>String()\<close> gives for a value
  that is no string.
\<close>

definition includeElement ::
  "(gval \<Rightarrow> string) \<Rightarrow> (gval \<Rightarrow> gval \<Rightarrow> bool outcome) \<Rightarrow> gval \<Rightarrow> gval \<Rightarrow> (bool \<times> bool) outcome" where
  "includeElement typeName IsEqual list element =
     (let listValue = list; elementValue = element in
      andThen (vTypeKind listValue) (\<lambda>listKind.
        if listKind = KString then
          Returns (True, Contains (vString typeName listValue) (vString typeName elementValue))
        else
          recovered
            (if listKind = KMap then
               andThen (vMapKeys listValue) (\<lambda>mapKeys. scanKeys IsEqual mapKeys element)
             else
               andThen (vLen listValue) (\<lambda>n. scanIndex IsEqual listValue element [0..<n]))))"

section \<open>Notions of the specification\<close>

text \<open>
  The number of decimal digits of a number, counted arithmetically: one digit below
  ten, one more for every further division by ten.  The sign is no digit.
\<close>

fun digitCount :: "nat \<Rightarrow> nat" where
  "digitCount n = (if n < 10 then 1 else Suc (digitCount (n div 10)))"

declare digitCount.simps [simp del]

definition decimalDigits :: "int \<Rightarrow> nat" where
  "decimalDigits i = digitCount (nat \<bar>i\<bar>)"

text \<open>A formatter for the places where no float is formatted.\<close>

definition noText :: "gval \<Rightarrow> string" where
  "noText v = []"

text \<open>
  \<^verbatim>\<open>unicode.IsLetter\<close> and \<^verbatim>\<open>unicode.IsDigit\<close> on the ASCII range, for concrete names.
\<close>

definition asciiLetter :: "nat \<Rightarrow> bool" where
  "asciiLetter r = ((0x41 \<le> r \<and> r \<le> 0x5A) \<or> (0x61 \<le> r \<and> r \<le> 0x7A))"

definition asciiDigit :: "nat \<Rightarrow> bool" where
  "asciiDigit r = (0x30 \<le> r \<and> r \<le> 0x39)"

text \<open>A call that hands back the arguments it was given, and a function value to call.\<close>

definition echoCall :: "gval \<Rightarrow> gval list \<Rightarrow> gval list outcome" where
  "echoCall fv ins = Returns ins"

definition sampleFunc :: gval where
  "sampleFunc = VFunc \<lparr>NumIn = 2, Outs = [otherType KBool]\<rparr> False"

section \<open>Auxiliary facts\<close>

lemma basicKindV2_int [simp]: "basicKindV2 (intKindOf w) = Inr intKind"
  by (cases w) simp_all

lemma basicKindV2_uint [simp]: "basicKindV2 (uintKindOf w) = Inr uintKind"
  by (cases w) simp_all

lemma basicKindV2_float [simp]: "basicKindV2 (floatKindOf w) = Inr floatKind"
  by (cases w) simp_all

lemma basicKindV2_complex [simp]: "basicKindV2 (complexKindOf w) = Inr complexKind"
  by (cases w) simp_all

subsection \<open>Two's complement on 64 bits\<close>

lemma uint_of_nonneg_sint: "0 \<le> sint (a::64 word) \<Longrightarrow> uint a = sint a"
  using uint_sint [of a] sint_lt [of a] by (simp add: take_bit_int_eq_self)

lemma uint_of_neg_sint: "sint (a::64 word) < 0 \<Longrightarrow> uint a = sint a + 2 ^ 64"
proof -
  assume neg: "sint a < 0"
  have lo: "- (2 ^ 63) \<le> sint a" using sint_ge [of a] by simp
  have "uint a = sint a mod 2 ^ 64" using uint_sint [of a] by (simp add: take_bit_eq_mod)
  also have "\<dots> = (sint a + 2 ^ 64) mod 2 ^ 64" by simp
  also have "\<dots> = sint a + 2 ^ 64" using neg lo by (intro mod_pos_pos_trivial) simp_all
  finally show ?thesis .
qed

lemma sint_neg_of_large_uint: "2 ^ 63 - 1 < uint (a::64 word) \<Longrightarrow> sint a < 0"
proof (rule ccontr)
  assume big: "2 ^ 63 - 1 < uint a" and "\<not> sint a < 0"
  then have "uint a = sint a" by (simp add: uint_of_nonneg_sint)
  with sint_lt [of a] big show False by simp
qed

lemma nonneg_sint_eq: "0 \<le> sint (a::64 word) \<Longrightarrow> (a = b) = (sint a = uint b)"
  using uint_of_nonneg_sint [of a] by (auto simp: word_uint_eq_iff)

subsection \<open>Decimal text\<close>

lemma length_formatNat: "length (formatNat n) = digitCount n"
proof (induction n rule: formatNat.induct)
  case (1 n)
  show ?case
  proof (cases "n < 10")
    case True
    then show ?thesis by (simp add: formatNat.simps [of n] digitCount.simps [of n])
  next
    case False
    with 1 show ?thesis by (simp add: formatNat.simps [of n] digitCount.simps [of n])
  qed
qed

lemma length_FormatInt:
  "length (FormatInt i) = decimalDigits i + (if i < 0 then 1 else 0)"
  by (simp add: FormatInt_def decimalDigits_def length_formatNat)

lemma digitCount_pos: "0 < digitCount n"
  by (simp add: digitCount.simps [of n])

text \<open>\<open>digitCount\<close> is the number of decimal digits: \<open>10 ^ (d - 1) \<le> n < 10 ^ d\<close>.\<close>

lemma digitCount_bounds: "0 < n \<Longrightarrow> 10 ^ (digitCount n - 1) \<le> n \<and> n < 10 ^ digitCount n"
proof (induction n rule: digitCount.induct)
  case (1 n)
  show ?case
  proof (cases "n < 10")
    case True
    with 1 show ?thesis by (simp add: digitCount.simps [of n])
  next
    case False
    define m where "m = n div 10"
    define d where "d = digitCount m"
    have pos: "0 < m" using False by (simp add: m_def)
    from 1 False pos have ih: "10 ^ (d - 1) \<le> m \<and> m < 10 ^ d"
      by (simp add: m_def d_def)
    have dc: "digitCount n = Suc d"
      using False by (simp add: digitCount.simps [of n] m_def d_def)
    have dpos: "0 < d" by (simp add: d_def digitCount_pos)
    have pw: "10 * 10 ^ (d - 1) = (10::nat) ^ d"
      using dpos by (cases d) simp_all
    have lo: "10 * m \<le> n" and hi: "n < 10 * m + 10" by (simp_all add: m_def)
    from ih have "10 * 10 ^ (d - 1) \<le> 10 * m" by simp
    with lo pw have l: "10 ^ d \<le> n" by simp
    from ih have "Suc m \<le> 10 ^ d" by simp
    then have "10 * Suc m \<le> 10 * 10 ^ d" by (rule mult_le_mono2)
    with hi have h: "n < 10 * 10 ^ d" by simp
    from l h dc show ?thesis by simp
  qed
qed

section \<open>Sign-aware equality of a signed and an unsigned integer\<close>

text \<open>
  C1.  For a signed integer \<open>a\<close> and an unsigned integer \<open>b\<close> of any widths,
  \<open>eq a b\<close> returns true exactly when \<open>a\<close> is not negative and its magnitude is \<open>b\<close>,
  and so does \<open>eq b a\<close>; with a negative \<open>a\<close> the answer is false.  No error is
  returned and nothing panics.
\<close>

theorem eq_int_uint_sign_aware:
  "eq (VInt w a) (VUint w' b) = Returns (0 \<le> sint a \<and> \<bar>sint a\<bar> = uint b)
   \<and> eq (VUint w' b) (VInt w a) = Returns (0 \<le> sint a \<and> \<bar>sint a\<bar> = uint b)"
  using nonneg_sint_eq [of a b]
  by (auto simp: eq_def eqMixedKind_def andThen_def)

section \<open>Length\<close>




text \<open>
  C10.  An unsigned value above \<open>2 ^ 63 - 1\<close> is formatted through its conversion to
  int64, which is the negative number \<open>u - 2 ^ 64\<close>: the length is the number of
  characters of that negative decimal text, a minus sign and the digits of
  \<open>2 ^ 64 - u\<close>.  The largest uint64 has length 2, the length of \<^verbatim>\<open>"-1"\<close>.
\<close>

theorem CalcLength_uint_wraps:
  "2 ^ 63 - 1 < uint u \<Longrightarrow>
     CalcLength fmtSprint (VUint w u) = int (length (FormatInt (sint u)))
     \<and> ValueLen fmtSprint (VUint w u) = int (length (FormatInt (sint u)))
     \<and> sint u = uint u - 2 ^ 64
     \<and> hd (FormatInt (sint u)) = CHR ''-''
     \<and> CalcLength fmtSprint (VUint w u) = 1 + int (decimalDigits (2 ^ 64 - uint u))"
proof -
  assume big: "2 ^ 63 - 1 < uint u"
  then have neg: "sint u < 0" by (rule sint_neg_of_large_uint)
  then have wrap: "sint u = uint u - 2 ^ 64" using uint_of_neg_sint [of u] by simp
  have len: "CalcLength fmtSprint (VUint w u) = int (length (FormatInt (sint u)))"
    and len': "ValueLen fmtSprint (VUint w u) = int (length (FormatInt (sint u)))"
    by (simp_all add: CalcLength_def ValueLen_def)
  have sign: "hd (FormatInt (sint u)) = CHR ''-''" using neg by (simp add: FormatInt_def)
  have "decimalDigits (sint u) = decimalDigits (2 ^ 64 - uint u)"
    using wrap neg by (simp add: decimalDigits_def)
  with len neg have "CalcLength fmtSprint (VUint w u) = 1 + int (decimalDigits (2 ^ 64 - uint u))"
    by (simp add: length_FormatInt)
  with len len' wrap sign show ?thesis by simp
qed

theorem CalcLength_uint_wraps_witness:
  "2 ^ 63 - 1 < uint (0xFFFFFFFFFFFFFFFF :: uint64)
   \<and> CalcLength noText (VUint U64 0xFFFFFFFFFFFFFFFF) = 2
   \<and> FormatInt (sint (0xFFFFFFFFFFFFFFFF :: uint64)) = ''-1''"
  using CalcLength_uint_wraps [of "0xFFFFFFFFFFFFFFFF" noText U64]
  by (simp add: FormatInt_def formatNat.simps digitChar_def)

section \<open>Equality by base kind\<close>







section \<open>Emptiness\<close>

lemma rangeBytes_Nil_iff: "rangeBytes i bs = [] \<longleftrightarrow> bs = []"
  by (cases bs) (simp_all add: split_def Let_def)

lemma runeCount_0_iff: "runeCount s = 0 \<longleftrightarrow> s = []"
  by (simp add: runeCount_def runes_def rangeString_def rangeBytes_Nil_iff)

text \<open>
  C9.  \<open>ValueIsEmpty\<close> by kind: the invalid value is empty; a string (counted in
  bytes or in runes) and an array are empty exactly when their length is 0; a map and
  a slice when their length is 0 or they are nil; a boolean when it is false; a
  signed, unsigned or float number when it is zero, so that 0 is empty and \<open>-1\<close> is
  not; a pointer and an interface when they are nil; every other shape when it is
  deeply equal to the zero value of its type.
\<close>

theorem ValueIsEmpty_by_kind:
  "ValueIsEmpty VInvalid
   \<and> ValueIsEmpty (VString s) = (length s = 0)
   \<and> ValueIsEmpty (VString s) = (runeCount s = 0)
   \<and> ValueIsEmpty (VArray xs) = (length xs = 0)
   \<and> ValueIsEmpty (VMap m) = (lenOpt m = 0 \<or> m = None)
   \<and> ValueIsEmpty (VSlice sl) = (lenOpt sl = 0 \<or> sl = None)
   \<and> ValueIsEmpty (VBool b) = (\<not> b)
   \<and> ValueIsEmpty (VInt w i) = (sint i = 0)
   \<and> ValueIsEmpty (VUint w' u) = (uint u = 0)
   \<and> ValueIsEmpty (VFloat fw f) = f64_eq f 0
   \<and> ValueIsEmpty (VInt I0 0)
   \<and> \<not> ValueIsEmpty (VInt I0 (- 1))
   \<and> ValueIsEmpty (VPtr p) = (p = None)
   \<and> ValueIsEmpty (VInterface x) = (x = None)
   \<and> ValueIsEmpty (VComplex cw re im) = deepEqualZero (VComplex cw re im)
   \<and> ValueIsEmpty (VChan c) = deepEqualZero (VChan c)
   \<and> ValueIsEmpty (VFunc ft isNil) = deepEqualZero (VFunc ft isNil)
   \<and> ValueIsEmpty (VStruct name fs) = deepEqualZero (VStruct name fs)
   \<and> ValueIsEmpty (VUnsafePointer a) = deepEqualZero (VUnsafePointer a)"
  by (simp add: runeCount_0_iff signed_eq_0_iff unsigned_eq_0_iff)

section \<open>Ordered comparison of strings and of numbers\<close>

text \<open>
  C2.  \<open>valueCompare\<close> on two strings compares their numbers of bytes, not of runes:
  the two-byte string \<^verbatim>\<open>"\xc3\xa9"\<close> (one rune, e with acute accent) is not shorter
  than \<^verbatim>\<open>"ab"\<close> under \<^verbatim>\<open>lt\<close>, though it has one rune and \<^verbatim>\<open>"ab"\<close> has two.
\<close>

theorem valueCompare_strings_by_bytes:
  "valueCompare ToInt64 (VString a) (VString b) op
     = compareInt64 (of_nat (length a)) (of_nat (length b)) op
   \<and> valueCompare ToInt64 (VString [CHR 0xC3, CHR 0xA9]) (VString ''ab'') ''lt'' = False
   \<and> runeCount [CHR 0xC3, CHR 0xA9] < runeCount ''ab''"
  by (simp add: valueCompare_def compareInt64_def runeCount_def runes_def rangeString_def
      leadSize_def acceptLo_def acceptHi_def isCont_def RuneError_def)

text \<open>
  C3.  With a first operand that is an integer and a second that is a float,
  \<open>compareIntFloat\<close> converts both to int64 and compares the integers; the conversion
  to float is not consulted.  As float64 values \<open>3 < 3.5\<close> and \<open>4 > 3.5\<close>, but no
  int64 in the place of 3.5 is above 3 and below 4.
\<close>

theorem compareIntFloat_int_then_float:
  "compareIntFloat ToFloat Int64 (VInt w a) (VFloat fw b) op
     = (case Int64 (VInt w a) of
          Inl err \<Rightarrow> False
        | Inr x \<Rightarrow> (case Int64 (VFloat fw b) of Inl err \<Rightarrow> False | Inr y \<Rightarrow> compareInt64 x y op))
   \<and> compareFloat64 0x4008000000000000 0x400C000000000000 ''lt''
   \<and> compareFloat64 0x4010000000000000 0x400C000000000000 ''gt''
   \<and> (\<forall>y. \<not> (compareInt64 3 y ''lt'' \<and> compareInt64 4 y ''gt''))"
  by (simp add: compareIntFloat_def compareFloat64_def compareInt64_def
      f64_lt_def f64_isNaN_def f64_key_def f64_mag_def)

section \<open>Membership\<close>

lemma recovered_no_panic: "recovered r \<noteq> Panics p"
  by (cases r) simp_all

text \<open>A container that is not nil never makes \<open>includeElement\<close> panic.\<close>

lemma includeElement_valid_no_panic:
  "list \<noteq> VInvalid \<Longrightarrow> includeElement typeName IsEqual list element \<noteq> Panics p"
  by (cases list) (simp_all add: includeElement_def andThen_def Let_def recovered_no_panic)

text \<open>
  C5.  With a nil container \<open>includeElement\<close> panics: \<^verbatim>\<open>listValue.Type()\<close> is called on
  the zero Value before the deferred recovery is installed.  With an integer as the
  container the panic of \<^verbatim>\<open>Len\<close> is recovered and \<open>(false, false)\<close> is returned.
\<close>

theorem includeElement_nil_container_panics:
  "includeElement typeName IsEqual VInvalid element
     = Panics (ReflectPanic ''reflect: call of reflect.Value.Type on zero Value'')
   \<and> includeElement typeName IsEqual (VInt w i) element = Returns (False, False)"
  by (cases w) (simp_all add: includeElement_def andThen_def)

section \<open>Registration\<close>

text \<open>
  C6.  A validator is accepted only if it is a function with exactly one result, of
  kind bool, and a filter only if it is a function with exactly one result or with two
  results of which the second is of type \<^verbatim>\<open>error\<close>; no check ever returns an error
  value, and with a good name and at least one parameter every other shape of results
  panics while the shapes above are accepted.
\<close>

theorem registration_return_shape:
  "(checkValidatorFunc L D name fn = Returns r \<longrightarrow>
      (\<exists>ft isNil. fn = VFunc ft isNil \<and> r = fn
         \<and> length (Outs ft) = 1 \<and> typeKind (Outs ft ! 0) = KBool))
   \<and> (checkFilterFunc L D name' fn' = Returns r' \<longrightarrow>
      (\<exists>ft isNil. fn' = VFunc ft isNil \<and> r' = fn'
         \<and> (length (Outs ft) = 1 \<or> (length (Outs ft) = 2 \<and> Outs ft ! 1 = errorType))))
   \<and> checkValidatorFunc L D name fn \<noteq> Fails e
   \<and> checkFilterFunc L D name' fn' \<noteq> Fails e'
   \<and> (goodName L D vname \<longrightarrow> 0 < NumIn vt \<longrightarrow>
        checkValidatorFunc L D vname (VFunc vt vnil) =
          (if length (Outs vt) = 1 \<and> typeKind (Outs vt ! 0) = KBool then Returns (VFunc vt vnil)
           else Panics (Panicf ''validator '%s' func must be return a bool value'' [vname])))
   \<and> (goodName L D fname \<longrightarrow> 0 < NumIn ft' \<longrightarrow>
        checkFilterFunc L D fname (VFunc ft' fnil) =
          (if length (Outs ft') = 1 \<or> (length (Outs ft') = 2 \<and> Outs ft' ! 1 = errorType)
           then Returns (VFunc ft' fnil)
           else Panics (Panicf ''can't install method/function %q with %d results''
                          [fname, FormatInt (int (length (Outs ft')))])))"
proof -
  have v1: "checkValidatorFunc L D name fn = Returns r \<longrightarrow>
      (\<exists>ft isNil. fn = VFunc ft isNil \<and> r = fn
         \<and> length (Outs ft) = 1 \<and> typeKind (Outs ft ! 0) = KBool)"
    by (auto simp: checkValidatorFunc_def split: if_splits gval.splits)
  have f1: "checkFilterFunc L D name' fn' = Returns r' \<longrightarrow>
      (\<exists>ft isNil. fn' = VFunc ft isNil \<and> r' = fn'
         \<and> (length (Outs ft) = 1 \<or> (length (Outs ft) = 2 \<and> Outs ft ! 1 = errorType)))"
    by (auto simp: checkFilterFunc_def goodFunc_def split: if_splits gval.splits)
  have v2: "checkValidatorFunc L D name fn \<noteq> Fails e"
    by (auto simp: checkValidatorFunc_def split: if_splits gval.splits)
  have f2: "checkFilterFunc L D name' fn' \<noteq> Fails e'"
    by (auto simp: checkFilterFunc_def split: if_splits gval.splits)
  have v3: "goodName L D vname \<longrightarrow> 0 < NumIn vt \<longrightarrow>
        checkValidatorFunc L D vname (VFunc vt vnil) =
          (if length (Outs vt) = 1 \<and> typeKind (Outs vt ! 0) = KBool then Returns (VFunc vt vnil)
           else Panics (Panicf ''validator '%s' func must be return a bool value'' [vname]))"
    by (simp add: checkValidatorFunc_def)
  have f3: "goodName L D fname \<longrightarrow> 0 < NumIn ft' \<longrightarrow>
        checkFilterFunc L D fname (VFunc ft' fnil) =
          (if length (Outs ft') = 1 \<or> (length (Outs ft') = 2 \<and> Outs ft' ! 1 = errorType)
           then Returns (VFunc ft' fnil)
           else Panics (Panicf ''can't install method/function %q with %d results''
                          [fname, FormatInt (int (length (Outs ft')))]))"
    by (simp add: checkFilterFunc_def goodFunc_def)
  from v1 f1 v2 f2 v3 f3 show ?thesis by blast
qed

theorem registration_return_shape_witness:
  "goodName asciiLetter asciiDigit ''isOk''
   \<and> checkValidatorFunc asciiLetter asciiDigit ''isOk''
         (VFunc \<lparr>NumIn = 1, Outs = [otherType KBool]\<rparr> False)
       = Returns (VFunc \<lparr>NumIn = 1, Outs = [otherType KBool]\<rparr> False)
   \<and> checkFilterFunc asciiLetter asciiDigit ''isOk''
         (VFunc \<lparr>NumIn = 1, Outs = [otherType KString, errorType]\<rparr> False)
       = Returns (VFunc \<lparr>NumIn = 1, Outs = [otherType KString, errorType]\<rparr> False)
   \<and> (\<exists>ft isNil. VFunc \<lparr>NumIn = 1, Outs = [otherType KBool]\<rparr> False = VFunc ft isNil
         \<and> length (Outs ft) = 1 \<and> typeKind (Outs ft ! 0) = KBool)"
proof -
  have g: "goodName asciiLetter asciiDigit ''isOk''"
    by (simp add: goodName_def rangeString_def asciiLetter_def asciiDigit_def)
  show ?thesis
    using g registration_return_shape [where L = asciiLetter and D = asciiDigit
        and name = "''isOk''" and name' = "''isOk''" and vname = "''isOk''" and fname = "''isOk''"
        and fn = "VFunc \<lparr>NumIn = 1, Outs = [otherType KBool]\<rparr> False"
        and r = "VFunc \<lparr>NumIn = 1, Outs = [otherType KBool]\<rparr> False"
        and fn' = "VFunc \<lparr>NumIn = 1, Outs = [otherType KString, errorType]\<rparr> False"
        and r' = "VFunc \<lparr>NumIn = 1, Outs = [otherType KString, errorType]\<rparr> False"
        and vt = "\<lparr>NumIn = 1, Outs = [otherType KBool]\<rparr>" and vnil = False
        and ft' = "\<lparr>NumIn = 1, Outs = [otherType KString, errorType]\<rparr>" and fnil = False]
    by simp
qed

section \<open>Invocation\<close>

lemma Kind_nilRVal: "Kind nilRVal = KStruct"
  by (simp add: nilRVal_def nilObj_def)

lemma callArgs_valid: "x \<in> set (callArgs args) \<Longrightarrow> Kind x \<noteq> KInvalid"
  by (auto simp: callArgs_def Kind_nilRVal)

text \<open>
  C7.  When \<open>fv\<close> is a function, \<open>CallByValue\<close> calls it with the arguments in which
  every invalid one (a nil argument) is replaced by the \<open>NilObject\<close> value and the
  others are unchanged; no argument of the call is invalid, so the panic of reflect
  on a zero Value argument does not occur.
\<close>

theorem CallByValue_no_invalid_argument:
  "Kind fv = KFunc \<Longrightarrow>
     CallByValue invoke fv args = invoke fv (callArgs args)
     \<and> length (callArgs args) = length args
     \<and> (\<forall>k < length args.
          callArgs args ! k = (if Kind (args ! k) = KInvalid then nilRVal else args ! k))
     \<and> (\<forall>x \<in> set (callArgs args). Kind x \<noteq> KInvalid)"
proof -
  assume f: "Kind fv = KFunc"
  have ok: "\<not> (\<exists>x \<in> set (callArgs args). Kind x = KInvalid)"
    using callArgs_valid by blast
  have "CallByValue invoke fv args = invoke fv (callArgs args)"
    using f ok by (simp add: CallByValue_def reflectCall_def)
  moreover have "length (callArgs args) = length args"
    by (simp add: callArgs_def)
  moreover have "\<forall>k < length args.
      callArgs args ! k = (if Kind (args ! k) = KInvalid then nilRVal else args ! k)"
    by (simp add: callArgs_def)
  ultimately show ?thesis using ok by blast
qed

theorem CallByValue_no_invalid_argument_witness:
  "Kind sampleFunc = KFunc
   \<and> CallByValue echoCall sampleFunc [VInvalid, VInt I0 1] = Returns [nilRVal, VInt I0 1]
   \<and> Kind nilRVal \<noteq> KInvalid"
proof -
  have k: "Kind sampleFunc = KFunc" by (simp add: sampleFunc_def)
  have args: "callArgs [VInvalid, VInt I0 1] = [nilRVal, VInt I0 1]"
    by (simp add: callArgs_def)
  show ?thesis
    using k CallByValue_no_invalid_argument [OF k, of echoCall "[VInvalid, VInt I0 1]"]
    by (simp only: args echoCall_def) simp
qed

end
